theory Spec2Isabelle
  imports Complex_Main "HOL-Library.Word"
begin

section \<open>JavaScript values\<close>

subsection \<open>Strings\<close>

text \<open>
  A JavaScript string is a sequence of UTF-16 code units. String literals of the source
  are ASCII (apart from the notification titles, whose emoji is written out in code
  units where it occurs) and are embedded with \<open>js\<close>. A template literal is the
  concatenation of its pieces.
\<close>

type_synonym jsstring = "16 word list"

definition js :: "string \<Rightarrow> jsstring" where
  "js s = map (\<lambda>c. of_nat (of_char c)) s"

text \<open>\<open>String.prototype.includes\<close>: the argument occurs as a contiguous run.\<close>

fun starts_with :: "jsstring \<Rightarrow> jsstring \<Rightarrow> bool" where
  "starts_with s [] = True"
| "starts_with [] (p # ps) = False"
| "starts_with (c # cs) (p # ps) = (c = p \<and> starts_with cs ps)"

fun str_includes :: "jsstring \<Rightarrow> jsstring \<Rightarrow> bool" where
  "str_includes [] t = (t = [])"
| "str_includes (c # cs) t = (starts_with (c # cs) t \<or> str_includes cs t)"

text \<open>\<open>s.substring(0, n)\<close> keeps the first \<open>n\<close> code units.\<close>

definition substring0 :: "nat \<Rightarrow> jsstring \<Rightarrow> jsstring" where
  "substring0 n s = take n s"

text \<open>
  \<open>s.padStart(n, fill)\<close>: a string already \<open>n\<close> units long, or an empty filler,
  leaves \<open>s\<close> as it is; otherwise the filler is repeated and cut to the missing length
  and put in front.
\<close>

definition padStart :: "nat \<Rightarrow> jsstring \<Rightarrow> jsstring \<Rightarrow> jsstring" where
  "padStart n fill s =
     (if n \<le> length s \<or> fill = [] then s
      else take (n - length s) (concat (replicate (n - length s) fill)) @ s)"

subsection \<open>Numbers rendered as text\<close>

text \<open>
  \<open>Number.prototype.toString(radix)\<close> on a non-negative integer: digits \<open>0-9\<close> then
  \<open>a-z\<close>, most significant first, and \<open>"0"\<close> for zero. The radix is 36 in
  \<open>uploadMetadata\<close> and 10 where a status code is interpolated into a template literal
  (a radix below 2 is a RangeError in JavaScript and is not used).
\<close>

definition digit_unit :: "nat \<Rightarrow> 16 word" where
  "digit_unit d = (if d < 10 then of_nat (48 + d) else of_nat (87 + d))"

function toString_radix :: "nat \<Rightarrow> nat \<Rightarrow> jsstring" where
  "toString_radix r n =
     (if r < 2 \<or> n < r then [digit_unit n]
      else toString_radix r (n div r) @ [digit_unit (n mod r)])"
  by pat_completeness auto
termination
  by (relation "measure snd") auto

declare toString_radix.simps [simp del]

subsection \<open>Iterating a string\<close>

text \<open>
  \<open>Array.from(s)\<close> walks the string by code point: a high surrogate directly followed
  by a low surrogate is one element of two code units, every other code unit (a lone
  surrogate too) is an element of its own. \<open>charCodeAt(0)\<close> of an element is its first
  code unit.
\<close>

datatype js_char = Unit "16 word" | Pair "16 word" "16 word"

definition is_high_surrogate :: "16 word \<Rightarrow> bool" where
  "is_high_surrogate u = (0xD800 \<le> u \<and> u \<le> 0xDBFF)"

definition is_low_surrogate :: "16 word \<Rightarrow> bool" where
  "is_low_surrogate u = (0xDC00 \<le> u \<and> u \<le> 0xDFFF)"

fun Array_from :: "jsstring \<Rightarrow> js_char list" where
  "Array_from [] = []"
| "Array_from [u] = [Unit u]"
| "Array_from (u # v # us) =
     (if is_high_surrogate u \<and> is_low_surrogate v then Pair u v # Array_from us
      else Unit u # Array_from (v # us))"

fun charCodeAt0 :: "js_char \<Rightarrow> nat" where
  "charCodeAt0 (Unit u) = unat u"
| "charCodeAt0 (Pair h l) = unat h"

section \<open>The mint hook: metadata stub\<close>

record MintCNFTParams =
  name :: jsstring
  symbol :: jsstring
  description :: "jsstring option"
  imageUrl :: "jsstring option"
  forceHelius :: "bool option"

text \<open>
  \<open>uploadMetadata\<close>: the character codes are added up from 0 with \<open>reduce\<close>, the sum
  is written in base 36 and padded on the left with \<open>x\<close> to 43 units, and the result is
  put behind the fixed prefix. The sum is a natural number here; JavaScript adds in
  double precision, which is exact below \<open>2^53\<close>. The console output of the function is
  not part of the model.
\<close>

definition name_hash :: "jsstring \<Rightarrow> jsstring" where
  "name_hash nm =
     padStart 43 (js ''x'')
       (toString_radix 36 (foldl (\<lambda>acc ch. acc + charCodeAt0 ch) 0 (Array_from nm)))"

definition uploadMetadata :: "MintCNFTParams \<Rightarrow> jsstring" where
  "uploadMetadata params = js ''https://arweave.net/'' @ name_hash (name params)"

text \<open>
  The sum of the character codes in the words of the specification, to be compared with
  the \<open>reduce\<close> of the source.
\<close>

definition char_code_sum :: "jsstring \<Rightarrow> nat" where
  "char_code_sum nm = sum_list (map charCodeAt0 (Array_from nm))"

section \<open>JSON values and errors\<close>

text \<open>
  The value \<open>req.json()\<close> or \<open>resp.json()\<close> resolves to. An object is the list of
  its own properties. A number is modelled by its mathematical value: rounding to double
  precision and the sign of zero are outside the model. \<open>undefined\<close> is not a JSON
  value; a property read that finds nothing returns \<open>None\<close>.
\<close>

datatype json =
    JNull
  | JBool bool
  | JNum rat
  | JStr jsstring
  | JArr "json list"
  | JObj "(jsstring \<times> json) list"

text \<open>A thrown value: an \<open>Error\<close> object with its \<open>name\<close> and \<open>message\<close>.\<close>

datatype js_error = JsError (err_name: jsstring) (err_message: jsstring)

definition TypeError :: "jsstring \<Rightarrow> js_error" where
  "TypeError msg = JsError (js ''TypeError'') msg"

text \<open>\<open>String(err)\<close>, that is \<open>Error.prototype.toString\<close>.\<close>

definition String_of_error :: "js_error \<Rightarrow> jsstring" where
  "String_of_error e =
     (if err_name e = [] then err_message e
      else if err_message e = [] then err_name e
      else err_name e @ js '': '' @ err_message e)"

text \<open>JavaScript truthiness, as \<open>!x\<close>, \<open>x || y\<close> and \<open>if (x)\<close> test it.\<close>

fun truthy :: "json \<Rightarrow> bool" where
  "truthy JNull = False"
| "truthy (JBool b) = b"
| "truthy (JNum n) = (n \<noteq> 0)"
| "truthy (JStr s) = (s \<noteq> [])"
| "truthy (JArr xs) = True"
| "truthy (JObj fs) = True"

definition truthy_opt :: "json option \<Rightarrow> bool" where
  "truthy_opt v = (case v of None \<Rightarrow> False | Some x \<Rightarrow> truthy x)"

text \<open>
  Reading a property \<open>v.k\<close> (destructuring reads the same way). On \<open>null\<close> and on
  \<open>undefined\<close> the read throws a TypeError, whose message is the engine's and is kept
  short here. On an object it is the property or \<open>undefined\<close>. The keys read in this
  program (\<open>name\<close>, \<open>symbol\<close>, \<open>owner\<close>, \<open>method\<close>, \<open>error\<close>, \<open>result\<close>, ...) are not
  properties of numbers, booleans, strings or arrays, so there the read is \<open>undefined\<close>.
\<close>

definition null_read :: js_error where
  "null_read = TypeError (js ''Cannot read properties of null or undefined'')"

fun property :: "json \<Rightarrow> jsstring \<Rightarrow> json option" where
  "property (JObj fs) k = map_of fs k"
| "property v k = None"

definition get_prop :: "json \<Rightarrow> jsstring \<Rightarrow> js_error + json option" where
  "get_prop v k = (if v = JNull then Inl null_read else Inr (property v k))"

definition get_prop_opt :: "json option \<Rightarrow> jsstring \<Rightarrow> js_error + json option" where
  "get_prop_opt v k = (case v of None \<Rightarrow> Inl null_read | Some x \<Rightarrow> get_prop x k)"

text \<open>
  An object literal handed to \<open>JSON.stringify\<close>: a property whose value is \<open>undefined\<close>
  is left out of the text. The serialised text is identified with the object it encodes.
\<close>

fun obj_literal :: "(jsstring \<times> json option) list \<Rightarrow> (jsstring \<times> json) list" where
  "obj_literal [] = []"
| "obj_literal ((k, None) # fs) = obj_literal fs"
| "obj_literal ((k, Some v) # fs) = (k, v) # obj_literal fs"

definition or_else :: "json option \<Rightarrow> json \<Rightarrow> json" where
  "or_else v d = (case v of None \<Rightarrow> d | Some x \<Rightarrow> if truthy x then x else d)"

text \<open>\<open>x || d\<close> on a value that is a string, \<open>null\<close> or \<open>undefined\<close>.\<close>

definition str_or :: "jsstring option \<Rightarrow> jsstring \<Rightarrow> jsstring" where
  "str_or v d = (case v of None \<Rightarrow> d | Some s \<Rightarrow> if s = [] then d else s)"

section \<open>The proxy routes\<close>

text \<open>
  A response of a route: \<open>new Response(body, {status, headers})\<close>. The body is either the
  text of a JSON value or a text passed through.
\<close>

datatype payload = Json json | Text jsstring

record response =
  status :: nat
  content_type :: jsstring
  body :: payload

text \<open>
  What \<open>fetch\<close> resolves to: the reply of the upstream provider. \<open>up_text\<close> is what
  \<open>resp.text()\<close> gives and \<open>up_json\<close> what \<open>resp.json()\<close> gives (it throws on a body
  that is not JSON); a route reads one of them, once.
\<close>

record upstream_response =
  up_status :: nat
  up_content_type :: "jsstring option"
  up_text :: jsstring
  up_json :: "js_error + json"

definition ok :: "upstream_response \<Rightarrow> bool" where
  "ok r = (200 \<le> up_status r \<and> up_status r \<le> 299)"

text \<open>
  The surroundings of a route. \<open>getHeliusRpcUrl\<close> is imported from \<open>@/lib/helius\<close>,
  which is not among the sources: its outcome (an endpoint, or a throw) is a parameter.
  \<open>fetch\<close> maps the endpoint and the JSON body of the POST to the provider's reply, or
  throws on a transport failure; a failure while the reply's body is read lands in the
  same \<open>catch\<close> and is counted with it. \<open>toString\<close> is JavaScript's conversion of a
  value to a string inside a template literal.
\<close>

record server_env =
  getHeliusRpcUrl :: "js_error + jsstring"
  fetch :: "jsstring \<Rightarrow> json \<Rightarrow> js_error + upstream_response"
  toString :: "json \<Rightarrow> jsstring"

text \<open>An upstream call: endpoint and JSON body. A route returns the calls it made and its response.\<close>

type_synonym upstream_call = "jsstring \<times> json"

definition json_response :: "nat \<Rightarrow> json \<Rightarrow> response" where
  "json_response st v = \<lparr>status = st, content_type = js ''application/json'', body = Json v\<rparr>"

text \<open>The \<open>catch\<close> block of both routes: status 500 with \<open>err.message || String(err)\<close>.\<close>

definition internal_error :: "js_error \<Rightarrow> response" where
  "internal_error err =
     json_response 500
       (JObj [(js ''error'',
          JStr (if err_message err \<noteq> [] then err_message err else String_of_error err))])"


definition new_Response :: "payload \<Rightarrow> nat \<Rightarrow> jsstring \<Rightarrow> js_error + response" where
  "new_Response b st ct =
     (if st < 200 \<or> 599 < st then
        Inl (JsError (js ''RangeError'') (js ''init.status must be in the range of 200 to 599''))
      else if st = 204 \<or> st = 205 \<or> st = 304 then
        Inl (TypeError (js ''Response with null body status cannot have body''))
      else Inr \<lparr>status = st, content_type = ct, body = b\<rparr>)"

text \<open>The two validation failures, each a fixed response with status 400.\<close>

definition missing_method :: response where
  "missing_method =
     json_response 400 (JObj [(js ''error'', JStr (js ''Missing method in request body''))])"

definition missing_fields :: response where
  "missing_fields =
     json_response 400
       (JObj [(js ''error'', JStr (js ''Missing required fields: name, symbol, owner''))])"

subsection \<open>POST /api/helius\<close>

definition rpc_envelope :: "json option \<Rightarrow> json option \<Rightarrow> json" where
  "rpc_envelope method params =
     JObj (obj_literal
       [(js ''jsonrpc'', Some (JStr (js ''2.0''))),
        (js ''id'', Some (JStr (js ''proxy''))),
        (js ''method'', method),
        (js ''params'', params)])"

text \<open>
  \<open>const { method, params } = body\<close> throws on \<open>null\<close> and reads the two properties
  otherwise. The final \<open>new Response(text, {status: resp.status, ...})\<close> is inside the
  \<open>try\<close>: when the constructor rejects the provider's status, the \<open>catch\<close> answers.
\<close>

definition rpc_POST :: "server_env \<Rightarrow> js_error + json \<Rightarrow> upstream_call list \<times> response" where
  "rpc_POST env req =
     (case req of
        Inl err \<Rightarrow> ([], internal_error err)
      | Inr bdy \<Rightarrow>
         if bdy = JNull then ([], internal_error null_read)
         else
           (let method = property bdy (js ''method'');
                params = property bdy (js ''params'')
            in
              if \<not> truthy_opt method then ([], missing_method)
              else
                (case getHeliusRpcUrl env of
                   Inl err \<Rightarrow> ([], internal_error err)
                 | Inr endpoint \<Rightarrow>
                    (case fetch env endpoint (rpc_envelope method params) of
                       Inl err \<Rightarrow> ([(endpoint, rpc_envelope method params)], internal_error err)
                     | Inr resp \<Rightarrow>
                        ([(endpoint, rpc_envelope method params)],
                         (case new_Response (Text (up_text resp)) (up_status resp)
                                 (str_or (up_content_type resp) (js ''application/json'')) of
                            Inl err \<Rightarrow> internal_error err
                          | Inr r \<Rightarrow> r))))))"

subsection \<open>POST /api/mint-cnft\<close>

definition mint_envelope :: "server_env \<Rightarrow> json option \<Rightarrow> json option \<Rightarrow> json option \<Rightarrow>
    json option \<Rightarrow> json option \<Rightarrow> json option \<Rightarrow> json" where
  "mint_envelope env nm symb owner descr img attrs =
     JObj (obj_literal
       [(js ''jsonrpc'', Some (JStr (js ''2.0''))),
        (js ''id'', Some (JStr (js ''helius-mint''))),
        (js ''method'', Some (JStr (js ''mintCompressedNft''))),
        (js ''params'', Some (JObj (obj_literal
           [(js ''name'', nm),
            (js ''symbol'', symb),
            (js ''owner'', owner),
            (js ''description'',
               Some (or_else descr
                 (JStr (js ''A compressed NFT: '' @
                        (case nm of None \<Rightarrow> js ''undefined'' | Some v \<Rightarrow> toString env v))))),
            (js ''attributes'', Some (or_else attrs (JArr []))),
            (js ''imageUrl'',
               Some (or_else img (JStr (js ''https://arweave.net/placeholder-image'')))),
            (js ''sellerFeeBasisPoints'', Some (JNum 500))])))])"

text \<open>The part of the handler after \<open>fetch\<close> has resolved.\<close>

definition mint_reply :: "upstream_response \<Rightarrow> response" where
  "mint_reply resp =
     (if \<not> ok resp then
        json_response 502
          (JObj [(js ''error'',
             JStr (js ''Helius error: '' @ toString_radix 10 (up_status resp) @ js '' - '' @
                   up_text resp))])
      else
        (case up_json resp of
           Inl err \<Rightarrow> internal_error err
         | Inr data \<Rightarrow>
            (case get_prop data (js ''error'') of
               Inl err \<Rightarrow> internal_error err
             | Inr e \<Rightarrow>
                if truthy_opt e then json_response 502 (JObj (obj_literal [(js ''error'', e)]))
                else
                  (case get_prop data (js ''result'') of
                     Inl err \<Rightarrow> internal_error err
                   | Inr result \<Rightarrow>
                      (case get_prop_opt result (js ''signature'') of
                         Inl err \<Rightarrow> internal_error err
                       | Inr sig \<Rightarrow>
                          (case get_prop_opt result (js ''assetId'') of
                             Inl err \<Rightarrow> internal_error err
                           | Inr asset \<Rightarrow>
                              json_response 200
                                (JObj (obj_literal
                                   [(js ''signature'', sig), (js ''assetId'', asset)]))))))))"

definition mint_POST :: "server_env \<Rightarrow> js_error + json \<Rightarrow> upstream_call list \<times> response" where
  "mint_POST env req =
     (case req of
        Inl err \<Rightarrow> ([], internal_error err)
      | Inr bdy \<Rightarrow>
         if bdy = JNull then ([], internal_error null_read)
         else
           (let nm = property bdy (js ''name'');
                symb = property bdy (js ''symbol'');
                owner = property bdy (js ''owner'');
                descr = property bdy (js ''description'');
                img = property bdy (js ''imageUrl'');
                attrs = property bdy (js ''attributes'')
            in
              if \<not> truthy_opt nm \<or> \<not> truthy_opt symb \<or> \<not> truthy_opt owner then
                ([], missing_fields)
              else
                (case getHeliusRpcUrl env of
                   Inl err \<Rightarrow> ([], internal_error err)
                 | Inr endpoint \<Rightarrow>
                    (case fetch env endpoint (mint_envelope env nm symb owner descr img attrs) of
                       Inl err \<Rightarrow>
                         ([(endpoint, mint_envelope env nm symb owner descr img attrs)],
                          internal_error err)
                     | Inr resp \<Rightarrow>
                         ([(endpoint, mint_envelope env nm symb owner descr img attrs)],
                          mint_reply resp)))))"

section \<open>The mint hook\<close>

subsection \<open>Configuration, wallet sources and collaborators\<close>

text \<open>
  \<open>process.env\<close>, fixed when the client is built: each variable is a string or
  \<open>undefined\<close>. A variable counts as set when it is truthy, that is a non-empty string.
\<close>

record config =
  NEXT_PUBLIC_MERKLE_TREE_ADDRESS :: "jsstring option"
  NEXT_PUBLIC_HELIUS_API_KEY :: "jsstring option"
  NEXT_PUBLIC_SOLANA_NETWORK :: "jsstring option"

definition truthy_str :: "jsstring option \<Rightarrow> bool" where
  "truthy_str v = (case v of None \<Rightarrow> False | Some s \<Rightarrow> s \<noteq> [])"

definition configuredTree :: "config \<Rightarrow> bool" where
  "configuredTree cfg = truthy_str (NEXT_PUBLIC_MERKLE_TREE_ADDRESS cfg)"

text \<open>
  The signer handed to the transaction SDK: its public key (in base58, \<open>None\<close> for
  \<open>null\<close>), whether \<open>signTransaction\<close> is defined, and whether it is the adapter the hook
  synthesises around the Phantom extension. The signing callbacks of the synthesised
  adapter run inside the SDK's send-and-confirm and are not unfolded here.
\<close>

record WalletContextState =
  publicKey :: "jsstring option"
  signTransaction :: bool
  synthesized :: bool

text \<open>\<open>window.solana\<close>: the injected object, with \<open>publicKey.toString()\<close> when it has a key.\<close>

record injected =
  isPhantom :: bool
  sol_publicKey :: "jsstring option"

text \<open>
  What the hook reads when it renders: \<open>account?.address\<close> of the WalletUi account
  (\<open>None\<close> when there is no account) and the wallet adapter.
\<close>

record hook_state =
  account :: "jsstring option"
  walletAdapter :: WalletContextState

text \<open>The instruction \<open>mintV1\<close> is given, with the endpoint and signer of the \<open>umi\<close> instance.\<close>

record mint_instruction =
  rpc_endpoint :: jsstring
  signer :: WalletContextState
  leafOwner :: jsstring
  merkleTree :: jsstring
  md_name :: jsstring
  md_symbol :: jsstring
  md_uri :: jsstring
  sellerFeeBasisPoints :: nat
  creator_address :: jsstring
  creator_verified :: bool
  creator_share :: nat

text \<open>
  The collaborators of the hook, as parameters: the injected extension (\<open>None\<close> when
  there is no \<open>window\<close> or no \<open>window.solana\<close>), the \<open>PublicKey\<close> constructor and
  \<open>umiPublicKey\<close> (both reject a malformed key by throwing), the SDK's
  \<open>sendAndConfirm\<close> (the signature bytes, or a throw), \<open>Buffer\<close>'s base64 encoding,
  \<open>fetch\<close> to \<open>/api/mint-cnft\<close> with its JSON body, and the conversion of a value to a
  string that \<open>new Error(value)\<close> performs.
\<close>

record client_env =
  window_solana :: "injected option"
  new_PublicKey :: "jsstring \<Rightarrow> js_error + jsstring"
  umiPublicKey :: "jsstring \<Rightarrow> js_error + jsstring"
  sendAndConfirm :: "mint_instruction \<Rightarrow> js_error + 8 word list"
  toBase64 :: "8 word list \<Rightarrow> jsstring"
  proxy_fetch :: "json \<Rightarrow> js_error + upstream_response"
  value_toString :: "json \<Rightarrow> jsstring"

subsection \<open>Errors, results and effects\<close>

text \<open>One constructor for each \<open>throw\<close> of the hook, and one for what a collaborator throws.\<close>

datatype mint_error =
    TreeNotConfigured
  | SignerNotConnected
  | SigningUnsupported
  | WalletNotConnected
  | ServerMintError nat jsstring
  | ServerReported json
  | Thrown js_error

definition message :: "client_env \<Rightarrow> mint_error \<Rightarrow> jsstring" where
  "message env e =
     (case e of
        TreeNotConfigured \<Rightarrow>
          js ''NEXT_PUBLIC_MERKLE_TREE_ADDRESS not configured. See TREE_SETUP_GUIDE.md''
      | SignerNotConnected \<Rightarrow>
          js (''Wallet not connected. To mint with the configured Merkle tree you must '' @
              ''connect a signing wallet. Alternatively, unset '' @
              ''NEXT_PUBLIC_MERKLE_TREE_ADDRESS to use the Helius API fallback.'')
      | SigningUnsupported \<Rightarrow> js ''Wallet does not support transaction signing''
      | WalletNotConnected \<Rightarrow> js ''Wallet not connected''
      | ServerMintError st txt \<Rightarrow>
          js ''Server mint error: '' @ toString_radix 10 st @ js '' - '' @ txt
      | ServerReported v \<Rightarrow> value_toString env v
      | Thrown err \<Rightarrow> err_message err)"

text \<open>
  The resolved value of the mutation. On the server-signed path the two fields are whatever
  the proxy's JSON holds under these keys, \<open>undefined\<close> included.
\<close>

record mint_result =
  signature :: "json option"
  assetId :: "json option"

datatype effect =
    ProxyFetch json
  | ChainSend mint_instruction
  | ToastSuccess jsstring jsstring nat
  | ToastError jsstring jsstring nat
  | InvalidateLater nat

type_synonym outcome = "effect list \<times> (mint_error + mint_result)"

subsection \<open>The two mint functions\<close>

definition umi_endpoint :: "config \<Rightarrow> jsstring" where
  "umi_endpoint cfg =
     (case NEXT_PUBLIC_HELIUS_API_KEY cfg of
        None \<Rightarrow> js ''https://api.devnet.solana.com''
      | Some apiKey \<Rightarrow>
         if apiKey = [] then js ''https://api.devnet.solana.com''
         else js ''https://'' @ str_or (NEXT_PUBLIC_SOLANA_NETWORK cfg) (js ''devnet'') @
              js ''.helius-rpc.com/?api-key='' @ apiKey)"

definition mintWithExistingTree ::
    "config \<Rightarrow> client_env \<Rightarrow> MintCNFTParams \<Rightarrow> WalletContextState \<Rightarrow> outcome" where
  "mintWithExistingTree cfg env params adapter =
     (case NEXT_PUBLIC_MERKLE_TREE_ADDRESS cfg of
        None \<Rightarrow> ([], Inl TreeNotConfigured)
      | Some treeAddress \<Rightarrow>
         if treeAddress = [] then ([], Inl TreeNotConfigured)
         else
           (let metadataUri = uploadMetadata params in
            case publicKey adapter of
              None \<Rightarrow> ([], Inl (Thrown null_read))
            | Some pk \<Rightarrow>
               (case umiPublicKey env pk of
                  Inl err \<Rightarrow> ([], Inl (Thrown err))
                | Inr owner \<Rightarrow>
                   (case umiPublicKey env treeAddress of
                      Inl err \<Rightarrow> ([], Inl (Thrown err))
                    | Inr tree \<Rightarrow>
                       (let instr =
                              \<lparr>rpc_endpoint = umi_endpoint cfg, signer = adapter,
                               leafOwner = owner, merkleTree = tree,
                               md_name = name params, md_symbol = symbol params,
                               md_uri = metadataUri, sellerFeeBasisPoints = 500,
                               creator_address = owner, creator_verified = False,
                               creator_share = 100\<rparr>
                        in case sendAndConfirm env instr of
                             Inl err \<Rightarrow> ([ChainSend instr], Inl (Thrown err))
                           | Inr bytes \<Rightarrow>
                              ([ChainSend instr],
                               Inr \<lparr>signature = Some (JStr (toBase64 env bytes)),
                                    assetId = Some (JStr (js ''pending-indexing''))\<rparr>))))))"

definition proxy_body :: "MintCNFTParams \<Rightarrow> jsstring \<Rightarrow> json" where
  "proxy_body params walletAddress =
     JObj (obj_literal
       [(js ''name'', Some (JStr (name params))),
        (js ''symbol'', Some (JStr (symbol params))),
        (js ''owner'', Some (JStr walletAddress)),
        (js ''description'', map_option JStr (description params)),
        (js ''imageUrl'', map_option JStr (imageUrl params))])"

definition mintWithHeliusAPI :: "client_env \<Rightarrow> MintCNFTParams \<Rightarrow> jsstring \<Rightarrow> outcome" where
  "mintWithHeliusAPI env params walletAddress =
     (case proxy_fetch env (proxy_body params walletAddress) of
        Inl err \<Rightarrow> ([ProxyFetch (proxy_body params walletAddress)], Inl (Thrown err))
      | Inr resp \<Rightarrow>
         ([ProxyFetch (proxy_body params walletAddress)],
          if \<not> ok resp then Inl (ServerMintError (up_status resp) (up_text resp))
          else
            (case up_json resp of
               Inl err \<Rightarrow> Inl (Thrown err)
             | Inr data \<Rightarrow>
                (case get_prop data (js ''error'') of
                   Inl err \<Rightarrow> Inl (Thrown err)
                 | Inr None \<Rightarrow>
                     Inr \<lparr>signature = property data (js ''signature''),
                          assetId = property data (js ''assetId'')\<rparr>
                 | Inr (Some e) \<Rightarrow>
                     if truthy e
                     then Inl (ServerReported (or_else (property e (js ''message'')) e))
                     else Inr \<lparr>signature = property data (js ''signature''),
                               assetId = property data (js ''assetId'')\<rparr>))))"

subsection \<open>The mutation\<close>

text \<open>\<open>configuredTree && !params.forceHelius\<close>; an absent flag is \<open>undefined\<close>, hence falsy.\<close>

definition useExistingTree :: "config \<Rightarrow> MintCNFTParams \<Rightarrow> bool" where
  "useExistingTree cfg params = (configuredTree cfg \<and> \<not> (forceHelius params = Some True))"

text \<open>The tail of mode 1, once an adapter with a public key is at hand.\<close>

definition sign_and_mint ::
    "config \<Rightarrow> client_env \<Rightarrow> MintCNFTParams \<Rightarrow> WalletContextState \<Rightarrow> outcome" where
  "sign_and_mint cfg env params effectiveAdapter =
     (if \<not> signTransaction effectiveAdapter then ([], Inl SigningUnsupported)
      else mintWithExistingTree cfg env params effectiveAdapter)"

text \<open>\<open>sol && sol.isPhantom\<close>: the injected object, when it is there and is Phantom.\<close>

definition phantom :: "client_env \<Rightarrow> injected option" where
  "phantom env =
     (case window_solana env of
        None \<Rightarrow> None
      | Some sol \<Rightarrow> if isPhantom sol then Some sol else None)"

text \<open>Mode 1: the existing tree, the user signs.\<close>

definition mode1 :: "config \<Rightarrow> client_env \<Rightarrow> hook_state \<Rightarrow> MintCNFTParams \<Rightarrow> outcome" where
  "mode1 cfg env h params =
     (case publicKey (walletAdapter h) of
        Some pk \<Rightarrow> sign_and_mint cfg env params (walletAdapter h)
      | None \<Rightarrow>
         (case phantom env of
            Some sol \<Rightarrow>
              (case sol_publicKey sol of
                 None \<Rightarrow> ([], Inl (Thrown null_read))
               | Some s \<Rightarrow>
                  (case new_PublicKey env s of
                     Inl err \<Rightarrow> ([], Inl (Thrown err))
                   | Inr k \<Rightarrow>
                      sign_and_mint cfg env params
                        \<lparr>publicKey = Some k, signTransaction = True, synthesized = True\<rparr>))
          | None \<Rightarrow>
              (case account h of
                 None \<Rightarrow> ([], Inl SignerNotConnected)
               | Some address \<Rightarrow>
                  if address = [] then ([], Inl SignerNotConnected)
                  else mintWithHeliusAPI env params address)))"

text \<open>Mode 2: the Helius API through the proxy.\<close>

definition mode2 :: "client_env \<Rightarrow> hook_state \<Rightarrow> MintCNFTParams \<Rightarrow> outcome" where
  "mode2 env h params =
     (case account h of
        None \<Rightarrow> ([], Inl WalletNotConnected)
      | Some address \<Rightarrow>
         if address = [] then ([], Inl WalletNotConnected)
         else mintWithHeliusAPI env params address)"

definition mutationFn :: "config \<Rightarrow> client_env \<Rightarrow> hook_state \<Rightarrow> MintCNFTParams \<Rightarrow> outcome" where
  "mutationFn cfg env h params =
     (if useExistingTree cfg params then mode1 cfg env h params else mode2 env h params)"

subsection \<open>Notifications\<close>

definition invalidations :: "effect list" where
  "invalidations = [InvalidateLater 3000, InvalidateLater 10000]"

text \<open>The title of the first notification starts with the emoji U+1F389, two code units.\<close>

definition signed_title :: jsstring where
  "signed_title = [0xD83C, 0xDF89] @ js '' cNFT Minted Successfully!''"

definition signed_description :: jsstring where
  "signed_description =
     js (''You signed and paid for this transaction. '' @
         ''Note: Using mock metadata URI for testing.'')"

text \<open>
  \<open>onSuccess\<close>. In the second branch \<open>data.assetId.substring(0, 8)\<close> is evaluated before
  anything is shown, and throws a TypeError unless \<open>assetId\<close> is a string.
\<close>

definition onSuccess :: "config \<Rightarrow> mint_result \<Rightarrow> js_error + effect list" where
  "onSuccess cfg data =
     (if configuredTree cfg then
        Inr (ToastSuccess signed_title signed_description 6000 # invalidations)
      else
        (case assetId data of
           Some (JStr s) \<Rightarrow>
             Inr (ToastSuccess (js ''Compressed NFT Minted!'')
                    (js ''Asset ID: '' @ substring0 8 s @ js ''...'') 5000 # invalidations)
         | _ \<Rightarrow> Inl (TypeError (js ''data.assetId.substring is not a function''))))"

definition onError :: "client_env \<Rightarrow> mint_error \<Rightarrow> effect list" where
  "onError env error =
     [ToastError (js ''Failed to Mint cNFT'')
        (if str_includes (message env error) (js ''NEXT_PUBLIC_MERKLE_TREE_ADDRESS'')
         then js ''Merkle tree not configured. Check TREE_SETUP_GUIDE.md''
         else message env error)
        8000]"

text \<open>
  One run of the mutation that \<open>useMutation\<close> builds from the three functions: the
  mutation function runs; when it resolves, \<open>onSuccess\<close> is called with the value, when it
  rejects, \<open>onError\<close> with the error. The library calls \<open>onSuccess\<close> inside the block
  whose failure it reports through \<open>onError\<close>, so a throw of \<open>onSuccess\<close> ends in
  \<open>onError\<close> too.
\<close>

definition mutate :: "config \<Rightarrow> client_env \<Rightarrow> hook_state \<Rightarrow> MintCNFTParams \<Rightarrow> outcome" where
  "mutate cfg env h params =
     (case mutationFn cfg env h params of
        (trace, Inl e) \<Rightarrow> (trace @ onError env e, Inl e)
      | (trace, Inr data) \<Rightarrow>
         (case onSuccess cfg data of
            Inr shown \<Rightarrow> (trace @ shown, Inr data)
          | Inl err \<Rightarrow> (trace @ onError env (Thrown err), Inl (Thrown err))))"

section \<open>Concrete requests and surroundings\<close>

text \<open>The inputs at which the theorems below are evaluated.\<close>

definition foo :: MintCNFTParams where
  "foo = \<lparr>name = js ''Foo'', symbol = js ''FOO'', description = None, imageUrl = None,
          forceHelius = None\<rparr>"

definition forced :: MintCNFTParams where
  "forced = foo\<lparr>forceHelius := Some True\<rparr>"

definition tree_config :: config where
  "tree_config =
     \<lparr>NEXT_PUBLIC_MERKLE_TREE_ADDRESS = Some (js ''Tree1''),
      NEXT_PUBLIC_HELIUS_API_KEY = None, NEXT_PUBLIC_SOLANA_NETWORK = None\<rparr>"

definition no_tree_config :: config where
  "no_tree_config =
     \<lparr>NEXT_PUBLIC_MERKLE_TREE_ADDRESS = None,
      NEXT_PUBLIC_HELIUS_API_KEY = None, NEXT_PUBLIC_SOLANA_NETWORK = None\<rparr>"

definition minted :: json where
  "minted = JObj [(js ''signature'', JStr (js ''sig1'')), (js ''assetId'', JStr (js ''id1''))]"

definition minted_result :: mint_result where
  "minted_result =
     \<lparr>signature = Some (JStr (js ''sig1'')), assetId = Some (JStr (js ''id1''))\<rparr>"

definition reply :: "nat \<Rightarrow> json \<Rightarrow> upstream_response" where
  "reply st v =
     \<lparr>up_status = st, up_content_type = Some (js ''application/json''),
      up_text = js ''upstream text'', up_json = Inr v\<rparr>"

text \<open>A browser with no injected wallet, whose proxy answers 200 with a minted asset.\<close>

definition browser :: client_env where
  "browser =
     \<lparr>window_solana = None, new_PublicKey = Inr, umiPublicKey = Inr,
      sendAndConfirm = (\<lambda>instr. Inr []), toBase64 = (\<lambda>bytes. []),
      proxy_fetch = (\<lambda>b. Inr (reply 200 minted)), value_toString = (\<lambda>v. [])\<rparr>"

definition no_adapter :: WalletContextState where
  "no_adapter = \<lparr>publicKey = None, signTransaction = False, synthesized = False\<rparr>"

definition ui_account :: hook_state where
  "ui_account = \<lparr>account = Some (js ''Addr1''), walletAdapter = no_adapter\<rparr>"

definition adapter :: WalletContextState where
  "adapter = \<lparr>publicKey = Some (js ''Pk1''), signTransaction = True, synthesized = False\<rparr>"

definition connected :: hook_state where
  "connected = \<lparr>account = Some (js ''Addr1''), walletAdapter = adapter\<rparr>"

definition nothing_connected :: hook_state where
  "nothing_connected = \<lparr>account = None, walletAdapter = no_adapter\<rparr>"

definition endpoint :: jsstring where
  "endpoint = js ''https://rpc.example/''"

text \<open>A server whose provider always answers with the given reply.\<close>

definition server :: "upstream_response \<Rightarrow> server_env" where
  "server r =
     \<lparr>getHeliusRpcUrl = Inr endpoint, fetch = (\<lambda>ep b. Inr r), toString = (\<lambda>v. [])\<rparr>"

definition mint_request :: json where
  "mint_request =
     JObj [(js ''name'', JStr (js ''Foo'')), (js ''symbol'', JStr (js ''FOO'')),
           (js ''owner'', JStr (js ''Addr1''))]"


definition rpc_error :: json where
  "rpc_error = JObj [(js ''code'', JNum (-32000)), (js ''message'', JStr (js ''mint failed''))]"

definition empty_name :: json where
  "empty_name =
     JObj [(js ''name'', JStr []), (js ''symbol'', JStr (js ''FOO'')),
           (js ''owner'', JStr (js ''Addr1''))]"

definition empty_method :: json where
  "empty_method = JObj [(js ''method'', JStr []), (js ''params'', JArr [])]"



definition syntax_error :: js_error where
  "syntax_error = JsError (js ''SyntaxError'') (js ''Unexpected end of JSON input'')"

text \<open>The same body with one property taken out, to compare an empty field with an absent one.\<close>

fun without :: "jsstring \<Rightarrow> json \<Rightarrow> json" where
  "without k (JObj fs) = JObj (filter (\<lambda>f. fst f \<noteq> k) fs)"
| "without k v = v"

section \<open>Facts about the JavaScript values\<close>

lemma js_inject: "js a = js b \<longleftrightarrow> a = b"
proof -
  have "inj (\<lambda>c::char. (of_nat (of_char c) :: 16 word))"
  proof (rule injI)
    fix x y :: char
    assume h: "(of_nat (of_char x) :: 16 word) = of_nat (of_char y)"
    have small: "(of_char c :: nat) < 2 ^ 16" for c
    proof -
      have "(of_char c :: nat) < 256"
        using mod_less_divisor [of 256 "of_char c :: nat"] by simp
      also have "(256::nat) < 2 ^ 16" by simp
      finally show ?thesis .
    qed
    from h have "unat (of_nat (of_char x) :: 16 word) = unat (of_nat (of_char y) :: 16 word)"
      by simp
    then have "(of_char x :: nat) = of_char y"
      using small [of x] small [of y] by (simp add: unat_of_nat)
    then show "x = y" by simp
  qed
  then have "inj js" unfolding js_def [abs_def] by (simp add: inj_mapI)
  then show ?thesis by (auto dest: injD)
qed

lemma js_empty: "js s = [] \<longleftrightarrow> s = []"
  by (simp add: js_def)

lemma property_Some_not_null: "property bdy k = Some v \<Longrightarrow> bdy \<noteq> JNull"
  by auto

lemma property_without: "property (without k bdy) k = None"
  by (cases bdy) (auto simp: map_of_eq_None_iff)

lemma without_not_null: "bdy \<noteq> JNull \<Longrightarrow> without k bdy \<noteq> JNull"
  by (cases bdy) auto

lemma digits_292: "toString_radix 36 292 = js ''84''"
  by code_simp

lemma digits_503: "toString_radix 10 503 = js ''503''"
  by code_simp

section \<open>The metadata stub\<close>

lemma charCodeAt0_le: "charCodeAt0 ch \<le> 65535"
proof (cases ch)
  case (Unit u)
  have "unat u < 2 ^ 16" using unsigned_less [of u] by simp
  then show ?thesis using Unit by simp
next
  case (Pair h l)
  have "unat h < 2 ^ 16" using unsigned_less [of h] by simp
  then show ?thesis using Pair by simp
qed

lemma length_Array_from: "length (Array_from s) \<le> length s"
  by (induction s rule: Array_from.induct) auto

lemma reduce_from: "foldl (\<lambda>acc ch. acc + charCodeAt0 ch) a cs = a + sum_list (map charCodeAt0 cs)"
  by (induction cs arbitrary: a) auto

lemma reduce_is_sum: "foldl (\<lambda>acc ch. acc + charCodeAt0 ch) 0 (Array_from nm) = char_code_sum nm"
  by (simp add: reduce_from char_code_sum_def)

lemma sum_codes_le: "sum_list (map charCodeAt0 cs) \<le> 65535 * length cs"
proof (induction cs)
  case Nil
  then show ?case by simp
next
  case (Cons c cs)
  then show ?case using charCodeAt0_le [of c] by simp
qed

lemma char_code_sum_le: "char_code_sum nm \<le> 65535 * length nm"
proof -
  have "char_code_sum nm \<le> 65535 * length (Array_from nm)"
    unfolding char_code_sum_def by (rule sum_codes_le)
  also have "\<dots> \<le> 65535 * length nm" using length_Array_from [of nm] by simp
  finally show ?thesis .
qed

lemma char_code_sum_safe:
  assumes "length nm < 2 ^ 37"
  shows "char_code_sum nm < 2 ^ 53"
proof -
  have "char_code_sum nm \<le> 65535 * length nm" by (rule char_code_sum_le)
  also have "\<dots> < 65535 * 2 ^ 37" using assms by simp
  also have "\<dots> < (2::nat) ^ 53" by simp
  finally show ?thesis .
qed

lemma length_toString_radix:
  "2 \<le> r \<Longrightarrow> n < r ^ Suc k \<Longrightarrow> length (toString_radix r n) \<le> Suc k"
proof (induction k arbitrary: n)
  case 0
  then show ?case by (simp add: toString_radix.simps)
next
  case (Suc k)
  show ?case
  proof (cases "n < r")
    case True
    then show ?thesis using Suc.prems by (simp add: toString_radix.simps)
  next
    case False
    have "n div r < r ^ Suc k" using Suc.prems
      by (simp add: less_mult_imp_div_less mult.commute)
    then have "length (toString_radix r (n div r)) \<le> Suc k"
      using Suc.IH Suc.prems(1) by blast
    then show ?thesis using False Suc.prems(1) by (subst toString_radix.simps) simp
  qed
qed

lemma digits_short:
  assumes "n < 2 ^ 53"
  shows "length (toString_radix 36 n) \<le> 43"
proof -
  have "(2::nat) ^ 53 < 36 ^ 43" by simp
  then have "n < 36 ^ 43" using assms by linarith
  moreover have "Suc 42 = 43" by simp
  ultimately have "n < 36 ^ Suc 42" by metis
  then have "length (toString_radix 36 n) \<le> Suc 42"
    by (rule length_toString_radix [rotated]) simp
  then show ?thesis by simp
qed

lemma padStart_x:
  assumes "length d \<le> 43"
  shows "padStart 43 (js ''x'') d = replicate (43 - length d) 0x78 @ d"
proof (cases "length d = 43")
  case True
  then show ?thesis by (simp add: padStart_def)
next
  case False
  have "concat (replicate n [x]) = replicate n x" for n and x :: "16 word"
    by (induction n) auto
  then show ?thesis using False assms by (simp add: padStart_def js_def)
qed

lemma sum_foo: "char_code_sum (js ''Foo'') = 292"
  by (simp add: char_code_sum_def js_def is_high_surrogate_def is_low_surrogate_def)

text \<open>
  C8. For every name shorter than \<open>2^37\<close> code units (every string a JavaScript engine
  can hold; the bound keeps the running sum below \<open>2^53\<close>, where the additions of the
  source are exact), \<open>uploadMetadata\<close> is a function of the name alone: its result is
  \<open>https://arweave.net/\<close> followed by the sum of the character codes in base 36, padded
  on the left with \<open>x\<close> to 43 code units, so the URI is 63 code units long, which is at
  most 200, and two parameter records with the same name give the same URI.
\<close>

theorem uploadMetadata_template:
  assumes "length (name p) < 2 ^ 37"
  shows "char_code_sum (name p) < 2 ^ 53 \<and>
         length (toString_radix 36 (char_code_sum (name p))) \<le> 43 \<and>
         uploadMetadata p =
           js ''https://arweave.net/'' @
           replicate (43 - length (toString_radix 36 (char_code_sum (name p)))) 0x78 @
           toString_radix 36 (char_code_sum (name p)) \<and>
         length (uploadMetadata p) = 63 \<and>
         length (uploadMetadata p) \<le> 200 \<and>
         (\<forall>q. name q = name p \<longrightarrow> uploadMetadata q = uploadMetadata p)"
proof -
  let ?d = "toString_radix 36 (char_code_sum (name p))"
  have safe: "char_code_sum (name p) < 2 ^ 53" using assms by (rule char_code_sum_safe)
  then have short: "length ?d \<le> 43" by (rule digits_short)
  have eq: "uploadMetadata p = js ''https://arweave.net/'' @ replicate (43 - length ?d) 0x78 @ ?d"
    by (simp add: uploadMetadata_def name_hash_def reduce_is_sum padStart_x [OF short])
  have len: "length (uploadMetadata p) = 63" unfolding eq using short by (simp add: js_def)
  have le: "length (uploadMetadata p) \<le> 200" using len by simp
  have dep: "\<forall>q. name q = name p \<longrightarrow> uploadMetadata q = uploadMetadata p"
    by (simp add: uploadMetadata_def)
  from safe short eq len le dep show ?thesis by (intro conjI)
qed

theorem uploadMetadata_template_witness:
  "length (name foo) < 2 ^ 37 \<and>
   char_code_sum (name foo) = 292 \<and>
   toString_radix 36 (char_code_sum (name foo)) = js ''84'' \<and>
   uploadMetadata foo = js ''https://arweave.net/'' @ replicate 41 0x78 @ js ''84'' \<and>
   length (uploadMetadata foo) = 63 \<and>
   uploadMetadata forced = uploadMetadata foo"
proof -
  have h: "length (name foo) < 2 ^ 37" by (simp add: foo_def js_def)
  have n: "name foo = js ''Foo''" by (simp add: foo_def)
  have q: "name forced = name foo" by (simp add: forced_def)
  from uploadMetadata_template [OF h] q show ?thesis
    unfolding n sum_foo digits_292 using h by (simp add: js_def)
qed

section \<open>The proxy routes\<close>

lemma mint_falsy_400:
  assumes "bdy \<noteq> JNull"
    and "\<not> truthy_opt (property bdy (js ''name'')) \<or>
         \<not> truthy_opt (property bdy (js ''symbol'')) \<or>
         \<not> truthy_opt (property bdy (js ''owner''))"
  shows "mint_POST env (Inr bdy) = ([], missing_fields)"
  using assms by (auto simp: mint_POST_def Let_def)

lemma rpc_falsy_400:
  assumes "bdy \<noteq> JNull" and "\<not> truthy_opt (property bdy (js ''method''))"
  shows "rpc_POST env (Inr bdy) = ([], missing_method)"
  using assms by (simp add: rpc_POST_def Let_def)

lemma validation_status: "status missing_fields = 400 \<and> status missing_method = 400"
  by (simp add: missing_fields_def missing_method_def json_response_def)

text \<open>
  A body that cannot be destructured never reaches the validation: when \<open>req.json()\<close>
  throws, or resolves to \<open>null\<close>, both routes answer from their \<open>catch\<close> block, with
  status 500 and without a call to the provider.
\<close>

lemma malformed_body_500:
  "mint_POST env (Inl err) = ([], internal_error err)"
  "mint_POST env (Inr JNull) = ([], internal_error null_read)"
  "rpc_POST env (Inl err) = ([], internal_error err)"
  "rpc_POST env (Inr JNull) = ([], internal_error null_read)"
  by (simp_all add: mint_POST_def rpc_POST_def)

lemma internal_error_response:
  "status (internal_error err) = 500"
  "\<exists>msg. body (internal_error err) = Json (JObj [(js ''error'', JStr msg)])"
  by (simp_all add: internal_error_def json_response_def)

lemma missing_fields_response:
  "status missing_fields = 400"
  "\<exists>msg. body missing_fields = Json (JObj [(js ''error'', JStr msg)])"
  by (simp_all add: missing_fields_def json_response_def)

text \<open>
  C5, amended. For every POST to the mint proxy in which \<open>name\<close>, \<open>symbol\<close> or \<open>owner\<close>
  is missing, no call to the provider is made and the answer has a body of the form
  \<open>{error: ...}\<close>. Its status is 400 when the body is a JSON value other than \<open>null\<close>;
  when the body is \<open>null\<close> or is not JSON at all, the destructuring (or the parse)
  throws and the status is 500.
\<close>

theorem mint_missing_field_400:
  "(bdy \<noteq> JNull \<longrightarrow>
      (property bdy (js ''name'') = None \<or> property bdy (js ''symbol'') = None \<or>
       property bdy (js ''owner'') = None) \<longrightarrow>
      mint_POST env (Inr bdy) = ([], missing_fields)) \<and>
   mint_POST env (Inr JNull) = ([], internal_error null_read) \<and>
   mint_POST env (Inl err) = ([], internal_error err) \<and>
   status missing_fields = 400 \<and>
   status (internal_error e) = 500 \<and>
   (\<exists>msg. body missing_fields = Json (JObj [(js ''error'', JStr msg)])) \<and>
   (\<exists>msg. body (internal_error e) = Json (JObj [(js ''error'', JStr msg)]))"
proof -
  have "mint_POST env (Inr bdy) = ([], missing_fields)"
    if "bdy \<noteq> JNull"
      and "property bdy (js ''name'') = None \<or> property bdy (js ''symbol'') = None \<or>
           property bdy (js ''owner'') = None"
    using that by (intro mint_falsy_400) (auto simp: truthy_opt_def)
  then show ?thesis
    using malformed_body_500 missing_fields_response internal_error_response by blast
qed

theorem mint_missing_field_400_witness:
  "JObj [(js ''name'', JStr (js ''Foo'')), (js ''symbol'', JStr (js ''FOO''))] \<noteq> JNull \<and>
   property (JObj [(js ''name'', JStr (js ''Foo'')), (js ''symbol'', JStr (js ''FOO''))])
     (js ''owner'') = None \<and>
   mint_POST (server (reply 200 minted))
     (Inr (JObj [(js ''name'', JStr (js ''Foo'')), (js ''symbol'', JStr (js ''FOO''))])) =
     ([], missing_fields) \<and>
   status missing_fields = 400 \<and>
   mint_POST (server (reply 200 minted)) (Inl syntax_error) = ([], internal_error syntax_error) \<and>
   status (internal_error syntax_error) = 500"
proof -
  let ?b = "JObj [(js ''name'', JStr (js ''Foo'')), (js ''symbol'', JStr (js ''FOO''))]"
  have n: "?b \<noteq> JNull" by simp
  have o: "property ?b (js ''owner'') = None" by (simp add: js_inject)
  from mint_missing_field_400 [of ?b "server (reply 200 minted)" syntax_error syntax_error] n o
  show ?thesis by blast
qed

text \<open>
  C5 as stated fails at the body \<open>null\<close>: it is valid JSON, it has none of the three
  fields, and the answer is 500, not 400 (still without a call to the provider).
\<close>

theorem mint_null_body_500:
  "property JNull (js ''name'') = None \<and>
   fst (mint_POST (server (reply 200 minted)) (Inr JNull)) = [] \<and>
   status (snd (mint_POST (server (reply 200 minted)) (Inr JNull))) = 500"
  by (simp add: malformed_body_500 internal_error_response)

lemma mint_reached:
  assumes "fst (mint_POST env req) = [(ep, bd)]" and "fetch env ep bd = Inr resp"
  shows "snd (mint_POST env req) = mint_reply resp"
  using assms
  by (auto simp: mint_POST_def Let_def split: sum.splits if_splits)

lemma property_mint_request:
  "property mint_request (js ''name'') = Some (JStr (js ''Foo''))"
  "property mint_request (js ''symbol'') = Some (JStr (js ''FOO''))"
  "property mint_request (js ''owner'') = Some (JStr (js ''Addr1''))"
  "property mint_request (js ''description'') = None"
  "property mint_request (js ''imageUrl'') = None"
  "property mint_request (js ''attributes'') = None"
  by (simp_all add: mint_request_def js_inject)

lemma mint_request_not_null: "mint_request \<noteq> JNull"
  by (simp add: mint_request_def)

lemma mint_request_reaches:
  "fst (mint_POST (server r) (Inr mint_request)) =
     [(endpoint, mint_envelope (server r) (Some (JStr (js ''Foo''))) (Some (JStr (js ''FOO'')))
                   (Some (JStr (js ''Addr1''))) None None None)]"
  by (simp add: mint_POST_def Let_def property_mint_request truthy_opt_def server_def
        js_empty mint_request_not_null)

text \<open>
  C6. Whenever the mint proxy has called the provider and the provider has replied: a
  reply whose status is not in 200..299 is answered 502 with the error text
  \<open>Helius error: <status> - <body>\<close>; and a reply with a success status whose JSON has an
  \<open>error\<close> member that reports an error (a truthy value, as every JSON-RPC error object
  is) is answered 502 with that member as the error.
\<close>

theorem mint_upstream_error_502:
  assumes "fst (mint_POST env req) = [(ep, bd)]" and "fetch env ep bd = Inr resp"
  shows "(\<not> ok resp \<longrightarrow>
            snd (mint_POST env req) =
              json_response 502
                (JObj [(js ''error'',
                   JStr (js ''Helius error: '' @ toString_radix 10 (up_status resp) @
                         js '' - '' @ up_text resp))])) \<and>
         (ok resp \<longrightarrow> up_json resp = Inr data \<longrightarrow> property data (js ''error'') = Some e \<longrightarrow>
            truthy e \<longrightarrow>
            snd (mint_POST env req) = json_response 502 (JObj [(js ''error'', e)]))"
proof -
  have r: "snd (mint_POST env req) = mint_reply resp" using assms by (rule mint_reached)
  have nn: "property data (js ''error'') = Some e \<Longrightarrow> data \<noteq> JNull"
    by (rule property_Some_not_null)
  show ?thesis unfolding r
    using nn by (auto simp: mint_reply_def get_prop_def truthy_opt_def)
qed

theorem mint_upstream_error_502_witness:
  "fst (mint_POST (server (reply 503 JNull)) (Inr mint_request)) =
     [(endpoint, mint_envelope (server (reply 503 JNull)) (Some (JStr (js ''Foo'')))
                   (Some (JStr (js ''FOO''))) (Some (JStr (js ''Addr1''))) None None None)] \<and>
   \<not> ok (reply 503 JNull) \<and>
   snd (mint_POST (server (reply 503 JNull)) (Inr mint_request)) =
     json_response 502 (JObj [(js ''error'', JStr (js ''Helius error: 503 - upstream text''))]) \<and>
   ok (reply 200 (JObj [(js ''error'', rpc_error)])) \<and>
   truthy rpc_error \<and>
   snd (mint_POST (server (reply 200 (JObj [(js ''error'', rpc_error)]))) (Inr mint_request)) =
     json_response 502 (JObj [(js ''error'', rpc_error)])"
proof -
  let ?bad = "reply 503 JNull" and ?err = "reply 200 (JObj [(js ''error'', rpc_error)])"
  have f1: "fetch (server ?bad) ep b = Inr ?bad" for ep b by (simp add: server_def)
  have f2: "fetch (server ?err) ep b = Inr ?err" for ep b by (simp add: server_def)
  have n1: "\<not> ok ?bad" by (simp add: ok_def reply_def)
  have n2: "ok ?err" by (simp add: ok_def reply_def)
  have j2: "up_json ?err = Inr (JObj [(js ''error'', rpc_error)])" by (simp add: reply_def)
  have p2: "property (JObj [(js ''error'', rpc_error)]) (js ''error'') = Some rpc_error" by simp
  have t2: "truthy rpc_error" by (simp add: rpc_error_def)
  have s: "js ''Helius error: '' @ toString_radix 10 (up_status ?bad) @ js '' - '' @ up_text ?bad
      = js ''Helius error: 503 - upstream text''"
    by (simp add: reply_def digits_503) (simp add: js_def)
  from mint_upstream_error_502 [OF mint_request_reaches f1, of "JNull" "JNull"]
    mint_upstream_error_502 [OF mint_request_reaches f2, of "JObj [(js ''error'', rpc_error)]"
      rpc_error]
    n1 n2 j2 p2 t2 mint_request_reaches
  show ?thesis unfolding s by simp
qed








text \<open>
  C10. At both routes a required field that is the empty string is answered exactly as
  the same body without that field: for each of \<open>name\<close>, \<open>symbol\<close> and \<open>owner\<close> at the
  mint proxy, and for \<open>method\<close> at the RPC proxy, the answer is the 400 response, no
  call to the provider is made, and the outcome equals the outcome for the body with the
  field removed.
\<close>

theorem empty_string_as_absent:
  "(property bdy (js ''name'') = Some (JStr []) \<longrightarrow>
      mint_POST env (Inr bdy) = ([], missing_fields) \<and>
      mint_POST env (Inr bdy) = mint_POST env (Inr (without (js ''name'') bdy))) \<and>
   (property bdy (js ''symbol'') = Some (JStr []) \<longrightarrow>
      mint_POST env (Inr bdy) = ([], missing_fields) \<and>
      mint_POST env (Inr bdy) = mint_POST env (Inr (without (js ''symbol'') bdy))) \<and>
   (property bdy (js ''owner'') = Some (JStr []) \<longrightarrow>
      mint_POST env (Inr bdy) = ([], missing_fields) \<and>
      mint_POST env (Inr bdy) = mint_POST env (Inr (without (js ''owner'') bdy))) \<and>
   (property bdy (js ''method'') = Some (JStr []) \<longrightarrow>
      rpc_POST env (Inr bdy) = ([], missing_method) \<and>
      rpc_POST env (Inr bdy) = rpc_POST env (Inr (without (js ''method'') bdy))) \<and>
   status missing_fields = 400 \<and> status missing_method = 400"
proof -
  have mint: "mint_POST env (Inr bdy) = ([], missing_fields) \<and>
      mint_POST env (Inr bdy) = mint_POST env (Inr (without k bdy))"
    if e: "property bdy k = Some (JStr [])"
      and k: "k \<in> {js ''name'', js ''symbol'', js ''owner''}"
    for k
  proof -
    have n: "bdy \<noteq> JNull" using e by (rule property_Some_not_null)
    have "\<not> truthy_opt (property bdy k)" using e by (simp add: truthy_opt_def)
    then have l: "mint_POST env (Inr bdy) = ([], missing_fields)"
      using k by (intro mint_falsy_400 [OF n]) auto
    have "\<not> truthy_opt (property (without k bdy) k)"
      by (simp add: property_without truthy_opt_def)
    then have "mint_POST env (Inr (without k bdy)) = ([], missing_fields)"
      using k by (intro mint_falsy_400 [OF without_not_null [OF n]]) auto
    with l show ?thesis by simp
  qed
  have rpc: "rpc_POST env (Inr bdy) = ([], missing_method) \<and>
      rpc_POST env (Inr bdy) = rpc_POST env (Inr (without (js ''method'') bdy))"
    if e: "property bdy (js ''method'') = Some (JStr [])"
  proof -
    have n: "bdy \<noteq> JNull" using e by (rule property_Some_not_null)
    have l: "rpc_POST env (Inr bdy) = ([], missing_method)"
      using e by (intro rpc_falsy_400 [OF n]) (simp add: truthy_opt_def)
    have "rpc_POST env (Inr (without (js ''method'') bdy)) = ([], missing_method)"
      by (intro rpc_falsy_400 [OF without_not_null [OF n]])
         (simp add: property_without truthy_opt_def)
    with l show ?thesis by simp
  qed
  have k1: "js ''name'' \<in> {js ''name'', js ''symbol'', js ''owner''}" by simp
  have k2: "js ''symbol'' \<in> {js ''name'', js ''symbol'', js ''owner''}" by simp
  have k3: "js ''owner'' \<in> {js ''name'', js ''symbol'', js ''owner''}" by simp
  from mint [OF _ k1] mint [OF _ k2] mint [OF _ k3] rpc validation_status
  show ?thesis by blast
qed

theorem empty_string_as_absent_witness:
  "property empty_name (js ''name'') = Some (JStr []) \<and>
   mint_POST (server (reply 200 minted)) (Inr empty_name) = ([], missing_fields) \<and>
   without (js ''name'') empty_name =
     JObj [(js ''symbol'', JStr (js ''FOO'')), (js ''owner'', JStr (js ''Addr1''))] \<and>
   mint_POST (server (reply 200 minted))
     (Inr (JObj [(js ''symbol'', JStr (js ''FOO'')), (js ''owner'', JStr (js ''Addr1''))])) =
     ([], missing_fields) \<and>
   property empty_method (js ''method'') = Some (JStr []) \<and>
   rpc_POST (server (reply 200 minted)) (Inr empty_method) = ([], missing_method) \<and>
   status missing_fields = 400 \<and> status missing_method = 400"
proof -
  let ?env = "server (reply 200 minted)"
  have a: "property empty_name (js ''name'') = Some (JStr [])" by (simp add: empty_name_def)
  have b: "property empty_method (js ''method'') = Some (JStr [])"
    by (simp add: empty_method_def)
  have w: "without (js ''name'') empty_name =
     JObj [(js ''symbol'', JStr (js ''FOO'')), (js ''owner'', JStr (js ''Addr1''))]"
    by (simp add: empty_name_def js_inject)
  have m: "mint_POST ?env (Inr empty_name) = ([], missing_fields) \<and>
      mint_POST ?env (Inr empty_name) = mint_POST ?env (Inr (without (js ''name'') empty_name))"
    using empty_string_as_absent [of empty_name ?env] a by blast
  then have m': "mint_POST ?env (Inr (without (js ''name'') empty_name)) = ([], missing_fields)"
    by metis
  have r: "rpc_POST ?env (Inr empty_method) = ([], missing_method) \<and>
      status missing_fields = 400 \<and> status missing_method = 400"
    using empty_string_as_absent [of empty_method ?env] b by blast
  from a b w m m' [unfolded w] r show ?thesis by (intro conjI) blast+
qed

section \<open>The mint hook\<close>

lemma tree_config_configured: "configuredTree tree_config"
  by (simp add: configuredTree_def tree_config_def truthy_str_def js_def)

lemma no_tree_config_not_configured: "\<not> configuredTree no_tree_config"
  by (simp add: configuredTree_def no_tree_config_def truthy_str_def)

lemma addr1: "js ''Addr1'' \<noteq> []"
  by (simp add: js_def)

lemma phantom_browser: "phantom browser = None"
  by (simp add: phantom_def browser_def)

lemma browser_mint:
  "mintWithHeliusAPI browser p a = ([ProxyFetch (proxy_body p a)], Inr minted_result)"
  by (simp add: mintWithHeliusAPI_def browser_def reply_def ok_def minted_def get_prop_def
        minted_result_def js_inject)















text \<open>
  C2. The claim is that the success notification follows the strategy that ran. The
  evaluation below shows what the hook does when the server-signed path runs while a tree
  address is configured: with the fallback forced, and with the silent re-route, the proxy
  is called and answers with asset \<open>id1\<close>, and the notification shown is the one of the
  user-signed path (``You signed and paid for this transaction ...''), which does not
  contain the asset id. Only without a tree address does the notification read
  \<open>Asset ID: id1...\<close>.
\<close>

theorem forced_fallback_shows_signed_message:
  "mutate tree_config browser ui_account forced =
     ([ProxyFetch (proxy_body forced (js ''Addr1'')),
       ToastSuccess signed_title signed_description 6000,
       InvalidateLater 3000, InvalidateLater 10000],
      Inr minted_result) \<and>
   mutate tree_config browser ui_account foo =
     ([ProxyFetch (proxy_body foo (js ''Addr1'')),
       ToastSuccess signed_title signed_description 6000,
       InvalidateLater 3000, InvalidateLater 10000],
      Inr minted_result) \<and>
   \<not> str_includes signed_description (js ''id1'') \<and>
   mutate no_tree_config browser ui_account foo =
     ([ProxyFetch (proxy_body foo (js ''Addr1'')),
       ToastSuccess (js ''Compressed NFT Minted!'') (js ''Asset ID: id1...'') 5000,
       InvalidateLater 3000, InvalidateLater 10000],
      Inr minted_result)"
proof -
  have a: "mutationFn tree_config browser ui_account forced =
      ([ProxyFetch (proxy_body forced (js ''Addr1''))], Inr minted_result)"
    by (simp add: mutationFn_def useExistingTree_def forced_def mode2_def ui_account_def addr1
          browser_mint)
  have b: "mutationFn tree_config browser ui_account foo =
      ([ProxyFetch (proxy_body foo (js ''Addr1''))], Inr minted_result)"
    by (simp add: mutationFn_def useExistingTree_def tree_config_configured foo_def mode1_def
          ui_account_def no_adapter_def phantom_browser addr1 browser_mint)
  have c: "mutationFn no_tree_config browser ui_account foo =
      ([ProxyFetch (proxy_body foo (js ''Addr1''))], Inr minted_result)"
    by (simp add: mutationFn_def useExistingTree_def no_tree_config_not_configured mode2_def
          ui_account_def addr1 browser_mint)
  have d: "\<not> str_includes signed_description (js ''id1'')"
    by (simp add: signed_description_def js_def)
  have e: "js ''Asset ID: '' @ substring0 8 (js ''id1'') @ js ''...'' = js ''Asset ID: id1...''"
    by (simp add: substring0_def js_def)
  show ?thesis
    by (simp add: mutate_def a b c d e onSuccess_def tree_config_configured
          no_tree_config_not_configured invalidations_def minted_result_def)
qed

text \<open>
  C3. When mode 1 is selected, the wallet adapter has no public key, no Phantom extension
  is injected, and the WalletUi account has an address, the mutation function is the
  server-side mint with that address: it makes the one call to the mint proxy, whose
  body has that address as \<open>owner\<close>, and its outcome is the outcome of that call; in
  particular it does not fail for want of a signing wallet.
\<close>

theorem reroute_to_server_mint:
  assumes "useExistingTree cfg p"
    and "publicKey (walletAdapter h) = None"
    and "phantom env = None"
    and "account h = Some a" and "a \<noteq> []"
  shows "mutationFn cfg env h p = mintWithHeliusAPI env p a \<and>
         fst (mutationFn cfg env h p) = [ProxyFetch (proxy_body p a)] \<and>
         property (proxy_body p a) (js ''owner'') = Some (JStr a) \<and>
         snd (mutationFn cfg env h p) \<noteq> Inl SignerNotConnected"
proof -
  have eq: "mutationFn cfg env h p = mintWithHeliusAPI env p a"
    using assms by (simp add: mutationFn_def mode1_def)
  have tr: "fst (mintWithHeliusAPI env p a) = [ProxyFetch (proxy_body p a)]"
    by (simp add: mintWithHeliusAPI_def split: sum.splits)
  have ow: "property (proxy_body p a) (js ''owner'') = Some (JStr a)"
    by (simp add: proxy_body_def js_inject)
  have ne: "snd (mintWithHeliusAPI env p a) \<noteq> Inl SignerNotConnected"
    by (simp add: mintWithHeliusAPI_def split: sum.splits option.splits)
  from eq tr ow ne show ?thesis by simp
qed

theorem reroute_to_server_mint_witness:
  "useExistingTree tree_config foo \<and>
   publicKey (walletAdapter ui_account) = None \<and>
   phantom browser = None \<and>
   account ui_account = Some (js ''Addr1'') \<and>
   mutationFn tree_config browser ui_account foo =
     ([ProxyFetch (proxy_body foo (js ''Addr1''))], Inr minted_result)"
proof -
  have u: "useExistingTree tree_config foo"
    by (simp add: useExistingTree_def tree_config_configured foo_def)
  have k: "publicKey (walletAdapter ui_account) = None"
    by (simp add: ui_account_def no_adapter_def)
  have a: "account ui_account = Some (js ''Addr1'')" by (simp add: ui_account_def)
  from reroute_to_server_mint [OF u k phantom_browser a addr1] u k a phantom_browser
  show ?thesis by (simp add: browser_mint)
qed

lemma signer_message_names_variable:
  "str_includes (message env SignerNotConnected) (js ''NEXT_PUBLIC_MERKLE_TREE_ADDRESS'')"
  by (simp add: message_def js_def)

text \<open>
  C4. With a tree configured, the fallback not forced, no public key on the wallet
  adapter, no Phantom extension and no account address, the mutation function throws the
  wallet-not-connected error of mode 1 before any effect: its trace is empty, so neither
  the proxy nor the chain has been called. The run then shows one error notification and
  nothing else. (The thrown message names the tree variable, so the description shown is
  the rewritten one.)
\<close>

theorem not_connected_fails:
  assumes "configuredTree cfg" and "forceHelius p \<noteq> Some True"
    and "publicKey (walletAdapter h) = None"
    and "phantom env = None"
    and "\<not> truthy_str (account h)"
  shows "mutationFn cfg env h p = ([], Inl SignerNotConnected) \<and>
         mutate cfg env h p =
           ([ToastError (js ''Failed to Mint cNFT'')
               (js ''Merkle tree not configured. Check TREE_SETUP_GUIDE.md'') 8000],
            Inl SignerNotConnected)"
proof -
  have m: "mutationFn cfg env h p = ([], Inl SignerNotConnected)"
    using assms
    by (auto simp: mutationFn_def useExistingTree_def mode1_def truthy_str_def
             split: option.splits)
  show ?thesis
    by (simp add: m mutate_def onError_def signer_message_names_variable)
qed

theorem not_connected_fails_witness:
  "configuredTree tree_config \<and> forceHelius foo \<noteq> Some True \<and>
   publicKey (walletAdapter nothing_connected) = None \<and>
   phantom browser = None \<and>
   \<not> truthy_str (account nothing_connected) \<and>
   fst (mutate tree_config browser nothing_connected foo) =
     [ToastError (js ''Failed to Mint cNFT'')
        (js ''Merkle tree not configured. Check TREE_SETUP_GUIDE.md'') 8000] \<and>
   snd (mutate tree_config browser nothing_connected foo) = Inl SignerNotConnected"
proof -
  have f: "forceHelius foo \<noteq> Some True" by (simp add: foo_def)
  have k: "publicKey (walletAdapter nothing_connected) = None"
    by (simp add: nothing_connected_def no_adapter_def)
  have a: "\<not> truthy_str (account nothing_connected)"
    by (simp add: nothing_connected_def truthy_str_def)
  from not_connected_fails [OF tree_config_configured f k phantom_browser a]
    tree_config_configured f k a phantom_browser
  show ?thesis by simp
qed

lemma helius_not_tree_error: "snd (mintWithHeliusAPI env p a) \<noteq> Inl TreeNotConfigured"
  by (simp add: mintWithHeliusAPI_def split: sum.splits option.splits)

lemma existing_tree_configured:
  "configuredTree cfg \<Longrightarrow> snd (mintWithExistingTree cfg env p ad) \<noteq> Inl TreeNotConfigured"
  by (auto simp: mintWithExistingTree_def configuredTree_def truthy_str_def Let_def
           split: option.splits sum.splits)

text \<open>
  C9. With the tree address configured, \<open>mintWithExistingTree\<close> never ends in its
  ``tree address not configured'' error; and since the mutation function calls it only in
  mode 1, which requires the configured tree, no run of the mutation function ends in
  that error, whatever the configuration.
\<close>

theorem tree_error_unreachable:
  "(configuredTree cfg \<longrightarrow> snd (mintWithExistingTree cfg env p ad) \<noteq> Inl TreeNotConfigured) \<and>
   snd (mutationFn cfg env h p) \<noteq> Inl TreeNotConfigured"
proof -
  have "snd (mutationFn cfg env h p) \<noteq> Inl TreeNotConfigured"
  proof (cases "useExistingTree cfg p")
    case True
    then have c: "configuredTree cfg" by (simp add: useExistingTree_def)
    have s: "snd (sign_and_mint cfg env p x) \<noteq> Inl TreeNotConfigured" for x
      using existing_tree_configured [OF c] by (simp add: sign_and_mint_def)
    show ?thesis using True s helius_not_tree_error
      by (simp add: mutationFn_def mode1_def split: option.splits sum.splits)
  next
    case False
    then show ?thesis using helius_not_tree_error
      by (simp add: mutationFn_def mode2_def split: option.splits)
  qed
  then show ?thesis using existing_tree_configured by blast
qed

theorem tree_error_unreachable_witness:
  "configuredTree tree_config \<and>
   snd (mintWithExistingTree tree_config browser foo no_adapter) \<noteq> Inl TreeNotConfigured \<and>
   snd (mintWithExistingTree tree_config browser foo no_adapter) = Inl (Thrown null_read) \<and>
   snd (mutationFn tree_config browser ui_account foo) \<noteq> Inl TreeNotConfigured"
proof -
  have e: "snd (mintWithExistingTree tree_config browser foo no_adapter) = Inl (Thrown null_read)"
    by (simp add: mintWithExistingTree_def tree_config_def no_adapter_def js_def)
  from tree_error_unreachable [of tree_config browser foo no_adapter ui_account]
    tree_config_configured e
  show ?thesis by simp
qed

end
